theory Spec2Isabelle
  imports Complex_Main "HOL-Library.Word"
begin

unbundle bit_operations_syntax

section \<open>X11 base types\<close>

text \<open>
  Xlib's \<open>Window\<close> is an unsigned resource id and \<open>None\<close> is the id 0.  The
  constant is called \<open>X_None\<close> here, since \<open>None\<close> is the empty option in HOL.
\<close>

type_synonym Window = nat

definition X_None :: Window where
  "X_None = 0"

section \<open>The interaction model (x-model.cpp)\<close>

datatype MoveResizeState = MR_INVALID | MR_MOVE | MR_RESIZE

text \<open>
  \<open>MoveResize(client, placeholder, state)\<close>: the record of the session in
  progress.  The selectors carry the prefix \<open>mr_\<close> because \<open>Icon\<close> has a
  field \<open>client\<close> too.
\<close>

datatype MoveResize =
  MoveResize (mr_client: Window) (mr_placeholder: Window) (mr_state: MoveResizeState)

text \<open>
  An icon: the client it hides, its own window and its graphics context (a
  handle).  \<open>Icon*\<close> is an \<open>Icon option\<close>, the null pointer being \<open>None\<close>; the
  functions below never write through the pointer, so an icon is identified
  with the value it points to.
\<close>

record Icon =
  client :: Window
  icon :: Window
  gc :: nat

text \<open>
  The two tables are \<open>std::map<Window, Icon*>\<close>: a key is absent
  (\<open>None\<close>), or bound to a pointer that may be null (\<open>Some None\<close>).
  \<open>m_moveresize\<close> is a pointer to the session, null when there is none.
\<close>

record XModel =
  m_clients_to_icons :: "Window \<rightharpoonup> Icon option"
  m_icon_windows_to_icons :: "Window \<rightharpoonup> Icon option"
  m_moveresize :: "MoveResize option"

definition XModel_init :: XModel where
  "XModel_init =
     \<lparr>m_clients_to_icons = Map.empty, m_icon_windows_to_icons = Map.empty,
      m_moveresize = None\<rparr>"

definition register_icon :: "Icon \<Rightarrow> XModel \<Rightarrow> XModel" where
  "register_icon i xm =
     xm\<lparr>m_clients_to_icons := (m_clients_to_icons xm)(client i \<mapsto> Some i),
        m_icon_windows_to_icons := (m_icon_windows_to_icons xm)(icon i \<mapsto> Some i)\<rparr>"

definition unregister_icon :: "Icon \<Rightarrow> XModel \<Rightarrow> XModel" where
  "unregister_icon i xm =
     xm\<lparr>m_clients_to_icons := (m_clients_to_icons xm)(client i := None),
        m_icon_windows_to_icons := (m_icon_windows_to_icons xm)(icon i := None)\<rparr>"

text \<open>
  \<open>operator[]\<close> of \<open>std::map\<close> returns the bound pointer, and binds an absent
  key to the null pointer first: a lookup returns the icon and the model it
  leaves behind.
\<close>

definition find_icon_from_client :: "Window \<Rightarrow> XModel \<Rightarrow> Icon option \<times> XModel" where
  "find_icon_from_client c xm =
     (case m_clients_to_icons xm c of
        Some p \<Rightarrow> (p, xm)
      | None \<Rightarrow> (None, xm\<lparr>m_clients_to_icons := (m_clients_to_icons xm)(c \<mapsto> None)\<rparr>))"

definition find_icon_from_icon_window :: "Window \<Rightarrow> XModel \<Rightarrow> Icon option \<times> XModel" where
  "find_icon_from_icon_window w xm =
     (case m_icon_windows_to_icons xm w of
        Some p \<Rightarrow> (p, xm)
      | None \<Rightarrow>
          (None, xm\<lparr>m_icon_windows_to_icons := (m_icon_windows_to_icons xm)(w \<mapsto> None)\<rparr>))"

definition enter_move :: "Window \<Rightarrow> Window \<Rightarrow> XModel \<Rightarrow> XModel" where
  "enter_move c p xm =
     (if m_moveresize xm \<noteq> None then xm
      else xm\<lparr>m_moveresize := Some (MoveResize c p MR_MOVE)\<rparr>)"

definition enter_resize :: "Window \<Rightarrow> Window \<Rightarrow> XModel \<Rightarrow> XModel" where
  "enter_resize c p xm =
     (if m_moveresize xm \<noteq> None then xm
      else xm\<lparr>m_moveresize := Some (MoveResize c p MR_RESIZE)\<rparr>)"

definition get_move_resize_placeholder :: "XModel \<Rightarrow> Window" where
  "get_move_resize_placeholder xm =
     (case m_moveresize xm of None \<Rightarrow> X_None | Some mr \<Rightarrow> mr_placeholder mr)"

definition get_move_resize_client :: "XModel \<Rightarrow> Window" where
  "get_move_resize_client xm =
     (case m_moveresize xm of None \<Rightarrow> X_None | Some mr \<Rightarrow> mr_client mr)"

definition get_move_resize_state :: "XModel \<Rightarrow> MoveResizeState" where
  "get_move_resize_state xm =
     (case m_moveresize xm of None \<Rightarrow> MR_INVALID | Some mr \<Rightarrow> mr_state mr)"

definition exit_move_resize :: "XModel \<Rightarrow> XModel" where
  "exit_move_resize xm =
     (if m_moveresize xm = None then xm else xm\<lparr>m_moveresize := None\<rparr>)"

section \<open>Types of the collaborators\<close>

text \<open>
  The headers that declare the following types (common.h, configparse.h,
  actions.h, the client model and Xlib) are not among the sources.  Each type
  is given with the members that x-events.cpp uses.

  \<open>Dimension\<close> is the C \<open>int\<close> of the fields of \<open>XWindowAttributes\<close>: a 32-bit
  word, compared through \<open>sint\<close>, so that an addition that overflows wraps
  around.
\<close>

type_synonym Dimension = "32 word"
type_synonym Dimension2D = "Dimension \<times> Dimension"
type_synonym Layer = nat
type_synonym KeySym = nat

definition DIM2D_X :: "Dimension2D \<Rightarrow> Dimension" where
  "DIM2D_X d = fst d"

definition DIM2D_Y :: "Dimension2D \<Rightarrow> Dimension" where
  "DIM2D_Y d = snd d"

definition DIM2D_WIDTH :: "Dimension2D \<Rightarrow> Dimension" where
  "DIM2D_WIDTH d = fst d"

record Box =
  box_x :: Dimension
  box_y :: Dimension
  box_width :: Dimension
  box_height :: Dimension

record XWindowAttributes =
  attr_x :: Dimension
  attr_y :: Dimension
  attr_width :: Dimension
  attr_height :: Dimension
  override_redirect :: bool

text \<open>
  \<open>XWMHints\<close> with the constants of Xutil.h: \<open>StateHint = 1L << 1\<close>,
  \<open>IconPixmapHint = 1L << 2\<close>, \<open>IconicState = 3\<close>.
\<close>

record XWMHints =
  flags :: "64 word"
  initial_state :: "32 word"
  icon_pixmap :: nat

definition StateHint :: "64 word" where
  "StateHint = 2"

definition IconPixmapHint :: "64 word" where
  "IconPixmapHint = 4"

definition IconicState :: "32 word" where
  "IconicState = 3"

datatype InitialState = IS_VISIBLE | IS_HIDDEN

datatype ClientPosScale =
  CPS_FLOATING | CPS_SPLIT_LEFT | CPS_SPLIT_RIGHT | CPS_SPLIT_TOP | CPS_SPLIT_BOTTOM | CPS_MAX

datatype Direction = DIR_TOP | DIR_BOTTOM | DIR_LEFT | DIR_RIGHT

datatype HotkeyType = HK_MOUSE | HK_FOCUS

datatype KeyboardAction =
    CLIENT_NEXT_DESKTOP | CLIENT_PREV_DESKTOP
  | NEXT_DESKTOP | PREV_DESKTOP
  | TOGGLE_STICK
  | ICONIFY
  | RUN
  | MAXIMIZE
  | REQUEST_CLOSE | FORCE_CLOSE
  | K_SNAP_TOP | K_SNAP_BOTTOM | K_SNAP_LEFT | K_SNAP_RIGHT
  | SCREEN_TOP | SCREEN_BOTTOM | SCREEN_LEFT | SCREEN_RIGHT
  | LAYER_ABOVE | LAYER_BELOW | LAYER_TOP | LAYER_BOTTOM
  | LAYER_1 | LAYER_2 | LAYER_3 | LAYER_4 | LAYER_5 | LAYER_6 | LAYER_7 | LAYER_8 | LAYER_9
  | CYCLE_FOCUS | CYCLE_FOCUS_BACK | EXIT_WM
  | INVALID_ACTION

text \<open>
  The desktop a client is on, with the five kinds that \<open>add_window\<close> tests
  through \<open>is_icon_desktop\<close>, \<open>is_moving_desktop\<close>, \<open>is_resizing_desktop\<close> and
  \<open>is_all_desktop\<close>.
\<close>

datatype Desktop = UserDesktop nat | AllDesktops | IconDesktop | MovingDesktop | ResizingDesktop

definition is_all_desktop :: "Desktop \<Rightarrow> bool" where
  "is_all_desktop d = (d = AllDesktops)"

definition is_icon_desktop :: "Desktop \<Rightarrow> bool" where
  "is_icon_desktop d = (d = IconDesktop)"

definition is_moving_desktop :: "Desktop \<Rightarrow> bool" where
  "is_moving_desktop d = (d = MovingDesktop)"

definition is_resizing_desktop :: "Desktop \<Rightarrow> bool" where
  "is_resizing_desktop d = (d = ResizingDesktop)"

text \<open>
  The rules of a window class.  \<open>actions\<close> is a mask of the flags \<open>ACT_...\<close>;
  the test \<open>action.actions & ACT_STICK\<close> is membership in the set of the flags
  that are on.  \<open>relative_x\<close> and \<open>relative_y\<close> are doubles: a finite double is
  the rational it denotes.
\<close>

datatype ActFlag = ACT_STICK | ACT_MAXIMIZE | ACT_SETLAYER | ACT_SNAP | ACT_MOVE_X | ACT_MOVE_Y

record ClassActions =
  actions :: "ActFlag set"
  layer :: Layer
  snap :: Direction
  relative_x :: rat
  relative_y :: rat

text \<open>
  Arithmetic on doubles.  The result of an operation is the exact result
  rounded to 53 significant bits, ties to even (\<open>round_double\<close>); the range
  of the exponent is not modelled, which changes no result after the
  conversion to \<open>int\<close>.  \<open>bit_length n\<close> is the number of binary digits of a
  positive \<open>n\<close>, and \<open>floor_log2 r\<close> the exponent of the leading bit of a
  positive \<open>r\<close>.
\<close>

function bit_length :: "int \<Rightarrow> int" where
  "bit_length n = (if n \<le> 0 then 0 else 1 + bit_length (n div 2))"
  by pat_completeness auto
termination
  by (relation "measure nat") auto

declare bit_length.simps [simp del]

definition pow2 :: "int \<Rightarrow> rat" where
  "pow2 k = (if 0 \<le> k then 2 ^ nat k else 1 / 2 ^ nat (- k))"

definition floor_log2 :: "rat \<Rightarrow> int" where
  "floor_log2 r =
     (if 1 \<le> r then bit_length \<lfloor>r\<rfloor> - 1
      else - bit_length (\<lceil>1 / r\<rceil> - 1))"

definition round_half_even :: "rat \<Rightarrow> int" where
  "round_half_even r =
     (let f = \<lfloor>r\<rfloor>; d = r - of_int f
      in if d < 1 / 2 then f else if 1 / 2 < d then f + 1 else if even f then f else f + 1)"

definition round_double :: "rat \<Rightarrow> rat" where
  "round_double r =
     (if r = 0 then 0
      else let e = floor_log2 \<bar>r\<bar> - 52
           in of_int (round_half_even (r / pow2 e)) * pow2 e)"

text \<open>
  The conversion of a double to a \<open>Dimension\<close> drops the fraction.  For a value
  outside the range of \<open>int\<close> the conversion is undefined in C++; the model
  gives the value of the conversion instruction of x86, the least \<open>int\<close>.  The
  conversion of a \<open>Dimension\<close> to a double is exact.
\<close>

definition double_to_Dimension :: "rat \<Rightarrow> Dimension" where
  "double_to_Dimension r =
     (let t = (if 0 \<le> r then \<lfloor>r\<rfloor> else \<lceil>r\<rceil>)
      in if - (2 ^ 31) \<le> t \<and> t < 2 ^ 31 then word_of_int t else word_of_int (- (2 ^ 31)))"

definition Dimension_to_double :: "Dimension \<Rightarrow> rat" where
  "Dimension_to_double d = of_int (sint d)"

text \<open>
  The configuration.  \<open>binding_to_action\<close> is the table
  \<open>key_commands.binding_to_action\<close> read with \<open>operator[]\<close>, as the function
  from a binding (key, secondary flag) to the action it returns.
\<close>

record WMConfig =
  shell :: string
  hotkey :: HotkeyType
  binding_to_action :: "KeySym \<times> bool \<Rightarrow> KeyboardAction"
  no_autofocus :: "string list"
  classactions :: "string \<rightharpoonup> ClassActions"
  show_icons :: bool
  icon_height :: Dimension

text \<open>The constants that common.h defines as macros are parameters.\<close>

record Macros =
  MOVE_BUTTON :: nat
  RESIZE_BUTTON :: nat
  LAUNCH_BUTTON :: nat
  ACTION_MASK :: "32 word"
  SECONDARY_MASK :: "32 word"
  MIN_LAYER :: Layer
  MAX_LAYER :: Layer
  DIALOG_LAYER :: Layer

text \<open>The members of \<open>XEvent\<close> that the handlers read.\<close>

record XKeyEvent =
  xkey_window :: Window
  xkey_subwindow :: Window
  xkey_state :: "32 word"
  xkey_keycode :: nat

record XButtonEvent =
  xbutton_window :: Window
  xbutton_subwindow :: Window
  xbutton_state :: "32 word"
  xbutton_button :: nat

datatype XEvent =
    KeyPress XKeyEvent
  | ButtonPress XButtonEvent
  | ButtonRelease XButtonEvent
  | MotionNotify
  | MapNotify Window
  | UnmapNotify Window
  | Expose Window
  | DestroyNotify Window
  | RRNotify
  | OtherEvent

text \<open>
  What the collaborators answer while one event is handled: the queries of
  the client model (\<open>is_client\<close>, \<open>find_desktop\<close>, \<open>get_focused\<close>,
  \<open>get_screen\<close>), of the focus cycle (\<open>get_next\<close>, \<open>get_prev\<close>), of the X
  server, of \<open>XModel::update_pointer\<close> (whose body is not among the sources) and
  of \<open>copy_pixmap\<close>, and whether \<open>fork()\<close> returns 0 in a child.
  \<open>get_wm_hints\<close> is \<open>None\<close> when the call returns false.
\<close>

record Queries =
  is_client :: "Window \<Rightarrow> bool"
  find_desktop :: "Window \<Rightarrow> Desktop"
  get_focused :: Window
  get_screen :: "Window \<Rightarrow> Box"
  get_next :: Window
  get_prev :: Window
  get_keysym :: "nat \<Rightarrow> KeySym"
  get_attributes :: "Window \<Rightarrow> XWindowAttributes"
  get_wm_hints :: "Window \<Rightarrow> XWMHints option"
  get_class :: "Window \<Rightarrow> string"
  get_transient_hint :: "Window \<Rightarrow> Window"
  get_pointer_location :: "Dimension \<times> Dimension"
  update_pointer :: "Dimension \<Rightarrow> Dimension \<Rightarrow> Dimension2D"
  get_screen_boxes :: "Box list"
  get_icon_name :: "Window \<Rightarrow> string"
  copy_pixmap :: "nat \<Rightarrow> Dimension2D"
  fork_ok :: bool

text \<open>
  The operations that the dispatcher invokes on its collaborators, named after
  the object and the method: the client model (\<open>m_clients\<close>), the X server
  (\<open>m_xdata\<close>), an icon's graphics context, and \<open>execl\<close> of /bin/sh -c in a
  forked child.
\<close>

datatype Call =
    execl_sh string
  | clients_update_screens "Box list"
  | clients_focus Window
  | clients_force_focus Window
  | clients_next_desktop
  | clients_prev_desktop
  | clients_client_next_desktop Window
  | clients_client_prev_desktop Window
  | clients_client_reset_desktop Window
  | clients_toggle_stick Window
  | clients_iconify Window
  | clients_deiconify Window
  | clients_change_mode Window ClientPosScale
  | clients_change_location Window Dimension Dimension
  | clients_to_relative_screen Window Direction
  | clients_up_layer Window
  | clients_down_layer Window
  | clients_set_layer Window Layer
  | clients_start_moving Window
  | clients_start_resizing Window
  | clients_stop_moving Window Dimension2D
  | clients_stop_resizing Window Dimension2D
  | clients_add_client Window InitialState Dimension2D Dimension2D bool
  | clients_unmap_client Window
  | clients_remove_client Window
  | xdata_request_close Window
  | xdata_destroy_win Window
  | xdata_move_window Window Dimension Dimension
  | xdata_resize_window Window Dimension Dimension
  | gc_clear nat
  | gc_copy_pixmap nat nat Dimension Dimension
  | gc_draw_string nat Dimension Dimension string

section \<open>The event dispatcher (x-events.cpp)\<close>

text \<open>
  The state of the dispatcher: the interaction model it refers to, the flag
  \<open>m_done\<close>, and the operations invoked so far, in order.
\<close>

record XEvents =
  m_xmodel :: XModel
  m_done :: bool
  issued :: "Call list"

definition issue :: "Call \<Rightarrow> XEvents \<Rightarrow> XEvents" where
  "issue c s = s\<lparr>issued := issued s @ [c]\<rparr>"

text \<open>
  \<open>if (!fork()) { execl("/bin/sh", "/bin/sh", "-c", cmd, NULL); exit(1); }\<close>
\<close>

definition fork_execl :: "Queries \<Rightarrow> string \<Rightarrow> XEvents \<Rightarrow> XEvents" where
  "fork_execl q cmd s = (if fork_ok q then issue (execl_sh cmd) s else s)"

definition handle_rrnotify :: "Queries \<Rightarrow> XEvents \<Rightarrow> XEvents" where
  "handle_rrnotify q s = issue (clients_update_screens (get_screen_boxes q)) s"

text \<open>The second \<open>switch (action)\<close> of \<open>handle_keypress\<close>, under \<open>case true\<close>.\<close>

fun client_action :: "Macros \<Rightarrow> KeyboardAction \<Rightarrow> Window \<Rightarrow> XEvents \<Rightarrow> XEvents" where
  "client_action mac CLIENT_NEXT_DESKTOP c s = issue (clients_client_next_desktop c) s"
| "client_action mac CLIENT_PREV_DESKTOP c s = issue (clients_client_prev_desktop c) s"
| "client_action mac TOGGLE_STICK c s = issue (clients_toggle_stick c) s"
| "client_action mac ICONIFY c s = issue (clients_iconify c) s"
| "client_action mac MAXIMIZE c s = issue (clients_change_mode c CPS_MAX) s"
| "client_action mac REQUEST_CLOSE c s = issue (xdata_request_close c) s"
| "client_action mac FORCE_CLOSE c s = issue (xdata_destroy_win c) s"
| "client_action mac K_SNAP_TOP c s = issue (clients_change_mode c CPS_SPLIT_TOP) s"
| "client_action mac K_SNAP_BOTTOM c s = issue (clients_change_mode c CPS_SPLIT_BOTTOM) s"
| "client_action mac K_SNAP_LEFT c s = issue (clients_change_mode c CPS_SPLIT_LEFT) s"
| "client_action mac K_SNAP_RIGHT c s = issue (clients_change_mode c CPS_SPLIT_RIGHT) s"
| "client_action mac SCREEN_TOP c s = issue (clients_to_relative_screen c DIR_TOP) s"
| "client_action mac SCREEN_BOTTOM c s = issue (clients_to_relative_screen c DIR_BOTTOM) s"
| "client_action mac SCREEN_LEFT c s = issue (clients_to_relative_screen c DIR_LEFT) s"
| "client_action mac SCREEN_RIGHT c s = issue (clients_to_relative_screen c DIR_RIGHT) s"
| "client_action mac LAYER_ABOVE c s = issue (clients_up_layer c) s"
| "client_action mac LAYER_BELOW c s = issue (clients_down_layer c) s"
| "client_action mac LAYER_TOP c s = issue (clients_set_layer c (MAX_LAYER mac)) s"
| "client_action mac LAYER_BOTTOM c s = issue (clients_set_layer c (MIN_LAYER mac)) s"
| "client_action mac LAYER_1 c s = issue (clients_set_layer c 1) s"
| "client_action mac LAYER_2 c s = issue (clients_set_layer c 2) s"
| "client_action mac LAYER_3 c s = issue (clients_set_layer c 3) s"
| "client_action mac LAYER_4 c s = issue (clients_set_layer c 4) s"
| "client_action mac LAYER_5 c s = issue (clients_set_layer c 5) s"
| "client_action mac LAYER_6 c s = issue (clients_set_layer c 6) s"
| "client_action mac LAYER_7 c s = issue (clients_set_layer c 7) s"
| "client_action mac LAYER_8 c s = issue (clients_set_layer c 8) s"
| "client_action mac LAYER_9 c s = issue (clients_set_layer c 9) s"
| "client_action mac _ c s = s"

text \<open>
  \<open>HotkeyType\<close> has the two values of the first \<open>switch\<close>; its \<open>default\<close>
  branch is for no value of the enumeration.  The first \<open>switch (action)\<close>
  returns in each of its cases; every other action needs a client.
\<close>

definition handle_keypress ::
  "WMConfig \<Rightarrow> Macros \<Rightarrow> Queries \<Rightarrow> XKeyEvent \<Rightarrow> XEvents \<Rightarrow> XEvents" where
  "handle_keypress cfg mac q ev s =
     (let key = get_keysym q (xkey_keycode ev);
          is_using_secondary_action = (xkey_state ev AND SECONDARY_MASK mac \<noteq> 0);
          client =
            (case hotkey cfg of
               HK_MOUSE \<Rightarrow>
                 (if xkey_subwindow ev = X_None then xkey_window ev else xkey_subwindow ev)
             | HK_FOCUS \<Rightarrow> get_focused q);
          action = binding_to_action cfg (key, is_using_secondary_action)
      in case action of
           RUN \<Rightarrow> fork_execl q ''exec /usr/bin/dmenu_run'' s
         | CYCLE_FOCUS \<Rightarrow>
             (if get_next q \<noteq> X_None then issue (clients_focus (get_next q)) s else s)
         | CYCLE_FOCUS_BACK \<Rightarrow>
             (if get_prev q \<noteq> X_None then issue (clients_focus (get_prev q)) s else s)
         | EXIT_WM \<Rightarrow> s\<lparr>m_done := True\<rparr>
         | NEXT_DESKTOP \<Rightarrow> issue clients_next_desktop s
         | PREV_DESKTOP \<Rightarrow> issue clients_prev_desktop s
         | _ \<Rightarrow> (if is_client q client then client_action mac action client s else s))"

definition handle_buttonpress ::
  "WMConfig \<Rightarrow> Macros \<Rightarrow> Queries \<Rightarrow> XButtonEvent \<Rightarrow> XEvents \<Rightarrow> XEvents" where
  "handle_buttonpress cfg mac q ev s =
     (let is_a_client =
            (is_client q (xbutton_window ev) \<or> is_client q (xbutton_subwindow ev));
          found = find_icon_from_icon_window (xbutton_window ev) (m_xmodel s);
          the_icon = fst found;
          s1 = s\<lparr>m_xmodel := snd found\<rparr>
      in if \<not> (is_a_client \<or> the_icon \<noteq> None) \<and> xbutton_button ev = LAUNCH_BUTTON mac
            \<and> xbutton_state ev = ACTION_MASK mac
         then fork_execl q (''exec '' @ shell cfg) s1
         else if the_icon \<noteq> None
         then issue (clients_deiconify (client (the the_icon))) s1
         else if is_a_client \<and> xbutton_state ev = ACTION_MASK mac
         then (if xbutton_button ev \<noteq> MOVE_BUTTON mac \<and> xbutton_button ev \<noteq> RESIZE_BUTTON mac
               then s1
               else let s2 = (if xbutton_button ev = MOVE_BUTTON mac
                              then issue (clients_start_moving (xbutton_subwindow ev)) s1
                              else s1)
                    in (if xbutton_button ev = RESIZE_BUTTON mac
                        then issue (clients_start_resizing (xbutton_subwindow ev)) s2
                        else s2))
         else if is_a_client
         then issue (clients_force_focus (xbutton_window ev)) s1
         else s1)"

definition handle_buttonrelease :: "Queries \<Rightarrow> XButtonEvent \<Rightarrow> XEvents \<Rightarrow> XEvents" where
  "handle_buttonrelease q ev s =
     (let expected_placeholder = get_move_resize_placeholder (m_xmodel s)
      in if expected_placeholder \<noteq> xbutton_window ev then s
         else let state = get_move_resize_state (m_xmodel s);
                  client = get_move_resize_client (m_xmodel s);
                  attrs = get_attributes q expected_placeholder
              in case state of
                   MR_MOVE \<Rightarrow> issue (clients_stop_moving client (attr_x attrs, attr_y attrs)) s
                 | MR_RESIZE \<Rightarrow>
                     issue (clients_stop_resizing client (attr_width attrs, attr_height attrs)) s
                 | MR_INVALID \<Rightarrow> s)"

text \<open>
  \<open>get_latest_event\<close> replaces the current event by the latest motion event;
  the handler reads no field of it.
\<close>

definition handle_motionnotify :: "Queries \<Rightarrow> XEvents \<Rightarrow> XEvents" where
  "handle_motionnotify q s =
     (let placeholder = get_move_resize_placeholder (m_xmodel s)
      in if placeholder = X_None then s
         else let attr = get_attributes q placeholder;
                  ptr = get_pointer_location q;
                  relative_change = update_pointer q (fst ptr) (snd ptr)
              in case get_move_resize_state (m_xmodel s) of
                   MR_MOVE \<Rightarrow>
                     issue (xdata_move_window placeholder
                              (attr_x attr + DIM2D_X relative_change)
                              (attr_y attr + DIM2D_Y relative_change)) s
                 | MR_RESIZE \<Rightarrow>
                     (let change1 =
                            (if sint (attr_width attr + DIM2D_X relative_change) \<le> 0
                             then (0, DIM2D_Y relative_change) else relative_change);
                          change2 =
                            (if sint (attr_height attr + DIM2D_Y change1) \<le> 0
                             then (DIM2D_X change1, 0) else change1)
                      in issue (xdata_resize_window placeholder
                                  (attr_width attr + DIM2D_X change2)
                                  (attr_height attr + DIM2D_Y change2)) s)
                 | MR_INVALID \<Rightarrow> s)"

definition handle_unmapnotify :: "Window \<Rightarrow> XEvents \<Rightarrow> XEvents" where
  "handle_unmapnotify being_unmapped s = issue (clients_unmap_client being_unmapped) s"

definition handle_destroynotify :: "Window \<Rightarrow> XEvents \<Rightarrow> XEvents" where
  "handle_destroynotify destroyed_window s = issue (clients_remove_client destroyed_window) s"

definition handle_expose :: "WMConfig \<Rightarrow> Queries \<Rightarrow> Window \<Rightarrow> XEvents \<Rightarrow> XEvents" where
  "handle_expose cfg q w s =
     (let found = find_icon_from_icon_window w (m_xmodel s);
          s1 = s\<lparr>m_xmodel := snd found\<rparr>
      in case fst found of
           None \<Rightarrow> s1
         | Some the_icon \<Rightarrow>
             (let s2 = issue (gc_clear (gc the_icon)) s1;
                  pixmap =
                    (if show_icons cfg
                     then (case get_wm_hints q (client the_icon) of
                             Some hints \<Rightarrow>
                               (if flags hints AND IconPixmapHint \<noteq> 0
                                then Some (icon_pixmap hints) else None)
                           | None \<Rightarrow> None)
                     else None);
                  s3 = (case pixmap of
                          Some pm \<Rightarrow> issue (gc_copy_pixmap (gc the_icon) pm 0 0) s2
                        | None \<Rightarrow> s2);
                  text_x_offset =
                    (case pixmap of Some pm \<Rightarrow> DIM2D_WIDTH (copy_pixmap q pm) | None \<Rightarrow> 0)
              in issue (gc_draw_string (gc the_icon) text_x_offset (icon_height cfg)
                          (get_icon_name q (client the_icon))) s3))"

text \<open>
  The body of \<open>if (m_config.classactions.count(win_class) > 0 && init_state !=
  IS_HIDDEN)\<close> in \<open>add_window\<close>, for the rule set \<open>action\<close> of the class.
\<close>

definition snap_mode :: "Direction \<Rightarrow> ClientPosScale" where
  "snap_mode d =
     (case d of
        DIR_LEFT \<Rightarrow> CPS_SPLIT_LEFT
      | DIR_RIGHT \<Rightarrow> CPS_SPLIT_RIGHT
      | DIR_TOP \<Rightarrow> CPS_SPLIT_TOP
      | DIR_BOTTOM \<Rightarrow> CPS_SPLIT_BOTTOM)"

definition class_actions ::
  "Queries \<Rightarrow> Window \<Rightarrow> XWindowAttributes \<Rightarrow> ClassActions \<Rightarrow> XEvents \<Rightarrow> XEvents" where
  "class_actions q window win_attr action s =
     (let s1 = (if ACT_STICK \<in> actions action
                then issue (clients_toggle_stick window) s else s);
          s2 = (if ACT_MAXIMIZE \<in> actions action
                then issue (clients_change_mode window CPS_MAX) s1 else s1);
          s3 = (if ACT_SETLAYER \<in> actions action
                then issue (clients_set_layer window (layer action)) s2 else s2);
          s4 = (if ACT_SNAP \<in> actions action
                then issue (clients_change_mode window (snap_mode (snap action))) s3 else s3)
      in if ACT_MOVE_X \<in> actions action \<or> ACT_MOVE_Y \<in> actions action
         then (let screen = get_screen q window;
                   s5 = issue (clients_change_mode window CPS_FLOATING) s4;
                   win_x_pos =
                     (if ACT_MOVE_X \<in> actions action
                      then double_to_Dimension
                             (round_double
                                (Dimension_to_double (box_width screen) * relative_x action))
                      else attr_x win_attr);
                   win_y_pos =
                     (if ACT_MOVE_Y \<in> actions action
                      then double_to_Dimension
                             (round_double
                                (Dimension_to_double (box_height screen) * relative_y action))
                      else attr_y win_attr)
               in if attr_x win_attr \<noteq> win_x_pos \<or> attr_x win_attr \<noteq> win_y_pos
                  then issue (clients_change_location window win_x_pos win_y_pos) s5
                  else s5)
         else s4)"

definition add_window ::
  "WMConfig \<Rightarrow> Macros \<Rightarrow> Queries \<Rightarrow> Window \<Rightarrow> XEvents \<Rightarrow> XEvents" where
  "add_window cfg mac q window s =
     (if is_client q window
      then (let mapped_desktop = find_desktop q window;
                s1 = (if is_icon_desktop mapped_desktop
                      then issue (clients_deiconify window) s else s);
                s2 = (if is_moving_desktop mapped_desktop \<or> is_resizing_desktop mapped_desktop
                      then (let placeholder = get_move_resize_placeholder (m_xmodel s1);
                                s1' = s1\<lparr>m_xmodel := exit_move_resize (m_xmodel s1)\<rparr>;
                                placeholder_attr = get_attributes q placeholder
                            in if is_moving_desktop mapped_desktop
                               then issue (clients_stop_moving window
                                             (attr_x placeholder_attr, attr_y placeholder_attr)) s1'
                               else if is_resizing_desktop mapped_desktop
                               then issue (clients_stop_resizing window
                                             (attr_width placeholder_attr,
                                              attr_height placeholder_attr)) s1'
                               else s1')
                      else s1)
            in if \<not> is_all_desktop mapped_desktop
               then issue (clients_client_reset_desktop window) s2
               else s2)
      else (let win_attr = get_attributes q window
            in if override_redirect win_attr then s
               else (let init_state =
                           (case get_wm_hints q window of
                              Some hints \<Rightarrow>
                                (if flags hints AND StateHint \<noteq> 0
                                    \<and> initial_state hints = IconicState
                                 then IS_HIDDEN else IS_VISIBLE)
                            | None \<Rightarrow> IS_VISIBLE);
                         win_class = get_class q window;
                         should_focus = (win_class \<notin> set (no_autofocus cfg));
                         s1 = issue (clients_add_client window init_state
                                       (attr_x win_attr, attr_y win_attr)
                                       (attr_width win_attr, attr_height win_attr)
                                       should_focus) s;
                         s2 = (if get_transient_hint q window \<noteq> X_None
                               then issue (clients_set_layer window (DIALOG_LAYER mac)) s1
                               else s1)
                     in case classactions cfg win_class of
                          Some action \<Rightarrow>
                            (if init_state \<noteq> IS_HIDDEN
                             then class_actions q window win_attr action s2 else s2)
                        | None \<Rightarrow> s2)))"

definition handle_mapnotify ::
  "WMConfig \<Rightarrow> Macros \<Rightarrow> Queries \<Rightarrow> Window \<Rightarrow> XEvents \<Rightarrow> XEvents" where
  "handle_mapnotify cfg mac q being_mapped s = add_window cfg mac q being_mapped s"

text \<open>
  One iteration of the event loop on the event that \<open>next_event\<close> delivered.
  The type of a RandR notification is above every core event type, so it
  matches no case of the \<open>switch\<close>.
\<close>

definition step ::
  "WMConfig \<Rightarrow> Macros \<Rightarrow> Queries \<Rightarrow> XEvent \<Rightarrow> XEvents \<Rightarrow> bool \<times> XEvents" where
  "step cfg mac q ev s =
     (let s' =
            (case ev of
               RRNotify \<Rightarrow> handle_rrnotify q s
             | KeyPress k \<Rightarrow> handle_keypress cfg mac q k s
             | ButtonPress b \<Rightarrow> handle_buttonpress cfg mac q b s
             | ButtonRelease b \<Rightarrow> handle_buttonrelease q b s
             | MotionNotify \<Rightarrow> handle_motionnotify q s
             | MapNotify w \<Rightarrow> handle_mapnotify cfg mac q w s
             | UnmapNotify w \<Rightarrow> handle_unmapnotify w s
             | Expose w \<Rightarrow> handle_expose cfg q w s
             | DestroyNotify w \<Rightarrow> handle_destroynotify w s
             | OtherEvent \<Rightarrow> s)
      in (\<not> m_done s', s'))"

section \<open>The client model's side of a button release\<close>

text \<open>
  Modelled from the spec: the client registry, which is not among the sources.
  By section 3 a client has a position and a size; by section 4.1 the registry
  is the table of the managed windows.
\<close>

record ClientGeometry =
  geom_location :: Dimension2D
  geom_size :: Dimension2D

type_synonym Registry = "Window \<rightharpoonup> ClientGeometry"

text \<open>
  Modelled from the spec: \<open>ClientModel::stop_moving\<close> together with the
  handling of the change it makes, neither of which is among the sources.  By
  sections 3 and 4.4 (item 5) the release of a move commits the placeholder's
  position to the client (move, reposition) and closes the session; by section
  4.1 nothing is committed to an unknown window; by section 4.2
  \<open>exit_move_resize\<close> clears the session.
\<close>

fun stop_moving :: "Window \<Rightarrow> Dimension2D \<Rightarrow> XModel \<times> Registry \<Rightarrow> XModel \<times> Registry" where
  "stop_moving w pos (xm, reg) =
     (exit_move_resize xm,
      case reg w of
        None \<Rightarrow> reg
      | Some g \<Rightarrow> reg(w \<mapsto> g\<lparr>geom_location := pos\<rparr>))"

text \<open>
  Modelled from the spec: \<open>ClientModel::stop_resizing\<close> together with the
  handling of the change it makes, neither of which is among the sources.  By
  sections 3 and 4.4 (item 5) the release of a resize commits the
  placeholder's size to the client (resize, resize) and closes the session.
\<close>

fun stop_resizing :: "Window \<Rightarrow> Dimension2D \<Rightarrow> XModel \<times> Registry \<Rightarrow> XModel \<times> Registry" where
  "stop_resizing w sz (xm, reg) =
     (exit_move_resize xm,
      case reg w of
        None \<Rightarrow> reg
      | Some g \<Rightarrow> reg(w \<mapsto> g\<lparr>geom_size := sz\<rparr>))"

text \<open>
  Modelled from the spec: the effect on the interaction model and the registry
  of an operation that \<open>handle_buttonrelease\<close> invokes.  It invokes
  \<open>stop_moving\<close> and \<open>stop_resizing\<close> only; no other operation is given an
  effect here.
\<close>

definition effect_of_stop :: "Call \<Rightarrow> XModel \<times> Registry \<Rightarrow> XModel \<times> Registry" where
  "effect_of_stop c m =
     (case c of
        clients_stop_moving w pos \<Rightarrow> stop_moving w pos m
      | clients_stop_resizing w sz \<Rightarrow> stop_resizing w sz m
      | _ \<Rightarrow> m)"

text \<open>
  Modelled from the spec: a button-release event handled to its end, by
  section 5 (an event is processed fully before the next).  The handler of
  x-events.cpp runs, then each operation it invoked takes effect, in order.
\<close>

definition buttonrelease_event ::
  "Queries \<Rightarrow> XButtonEvent \<Rightarrow> XEvents \<Rightarrow> Registry \<Rightarrow> XEvents \<times> Registry" where
  "buttonrelease_event q ev s reg =
     (let s' = handle_buttonrelease q ev s;
          invoked = drop (length (issued s)) (issued s');
          m = fold effect_of_stop invoked (m_xmodel s', reg)
      in (s'\<lparr>m_xmodel := fst m\<rparr>, snd m))"

section \<open>Sequences of calls on the icon tables\<close>

datatype IconCall =
  Register Icon | Unregister Icon | FindFromClient Window | FindFromIconWindow Window

fun do_call :: "IconCall \<Rightarrow> XModel \<Rightarrow> XModel" where
  "do_call (Register i) xm = register_icon i xm"
| "do_call (Unregister i) xm = unregister_icon i xm"
| "do_call (FindFromClient c) xm = snd (find_icon_from_client c xm)"
| "do_call (FindFromIconWindow w) xm = snd (find_icon_from_icon_window w xm)"

fun do_calls :: "IconCall list \<Rightarrow> XModel \<Rightarrow> XModel" where
  "do_calls [] xm = xm"
| "do_calls (c # cs) xm = do_calls cs (do_call c xm)"

text \<open>An icon is found by a key when the lookup under its key returns it.\<close>

definition found_by_client :: "XModel \<Rightarrow> Icon \<Rightarrow> bool" where
  "found_by_client xm i = (fst (find_icon_from_client (client i) xm) = Some i)"

definition found_by_icon_window :: "XModel \<Rightarrow> Icon \<Rightarrow> bool" where
  "found_by_icon_window xm i = (fst (find_icon_from_icon_window (icon i) xm) = Some i)"

text \<open>
  The discipline of the callers: an icon is registered only while no
  registered icon has its client or its icon window, and unregistered only
  while it is registered.  \<open>regs\<close> lists the icons registered so far.
\<close>

fun call_allowed :: "IconCall \<Rightarrow> Icon list \<Rightarrow> bool" where
  "call_allowed (Register i) regs =
     list_all (\<lambda>j. client j \<noteq> client i \<and> icon j \<noteq> icon i) regs"
| "call_allowed (Unregister i) regs = (i \<in> set regs)"
| "call_allowed (FindFromClient c) regs = True"
| "call_allowed (FindFromIconWindow w) regs = True"

fun registered_after :: "IconCall \<Rightarrow> Icon list \<Rightarrow> Icon list" where
  "registered_after (Register i) regs = i # regs"
| "registered_after (Unregister i) regs = removeAll i regs"
| "registered_after (FindFromClient c) regs = regs"
| "registered_after (FindFromIconWindow w) regs = regs"

fun one_icon_per_key :: "IconCall list \<Rightarrow> Icon list \<Rightarrow> bool" where
  "one_icon_per_key [] regs = True"
| "one_icon_per_key (c # cs) regs =
     (call_allowed c regs \<and> one_icon_per_key cs (registered_after c regs))"

section \<open>Invariant of the icon tables\<close>

text \<open>
  Both tables hold exactly the registered icons, each under its own key, and no
  two registered icons share a key.
\<close>

definition icons_indexed :: "XModel \<Rightarrow> Icon list \<Rightarrow> bool" where
  "icons_indexed xm regs =
     ((\<forall>c i. m_clients_to_icons xm c = Some (Some i) \<longleftrightarrow> i \<in> set regs \<and> client i = c)
    \<and> (\<forall>w i. m_icon_windows_to_icons xm w = Some (Some i) \<longleftrightarrow> i \<in> set regs \<and> icon i = w)
    \<and> inj_on client (set regs) \<and> inj_on icon (set regs))"

section \<open>Concrete inputs\<close>

text \<open>
  A window at (100, 50) of size 640 x 480 on a screen of 800 x 200, the class
  rule ``move to half of the screen's height'', and a session on client 7 with
  placeholder 99.
\<close>

definition example_attributes :: XWindowAttributes where
  "example_attributes =
     \<lparr>attr_x = 100, attr_y = 50, attr_width = 640, attr_height = 480,
      override_redirect = False\<rparr>"

definition example_queries :: Queries where
  "example_queries =
     \<lparr>is_client = (\<lambda>w. False), find_desktop = (\<lambda>w. UserDesktop 0), get_focused = X_None,
      get_screen = (\<lambda>w. \<lparr>box_x = 0, box_y = 0, box_width = 800, box_height = 200\<rparr>),
      get_next = X_None, get_prev = X_None, get_keysym = (\<lambda>k. k),
      get_attributes = (\<lambda>w. example_attributes), get_wm_hints = (\<lambda>w. None),
      get_class = (\<lambda>w. ''Term''), get_transient_hint = (\<lambda>w. X_None),
      get_pointer_location = (0, 0), update_pointer = (\<lambda>x y. (- 1000, 7)),
      get_screen_boxes = [], get_icon_name = (\<lambda>w. ''''), copy_pixmap = (\<lambda>p. (0, 0)),
      fork_ok = True\<rparr>"

definition example_macros :: Macros where
  "example_macros =
     \<lparr>MOVE_BUTTON = 1, RESIZE_BUTTON = 3, LAUNCH_BUTTON = 1, ACTION_MASK = 64,
      SECONDARY_MASK = 4, MIN_LAYER = 0, MAX_LAYER = 10, DIALOG_LAYER = 5\<rparr>"

definition example_rule :: ClassActions where
  "example_rule =
     \<lparr>actions = {ACT_MOVE_Y}, layer = 5, snap = DIR_LEFT, relative_x = 0, relative_y = 1 / 2\<rparr>"

definition example_config :: WMConfig where
  "example_config =
     \<lparr>shell = ''xterm'', hotkey = HK_MOUSE,
      binding_to_action = (\<lambda>b. if b = (114, False) then RUN else INVALID_ACTION),
      no_autofocus = [], classactions = [''Term'' \<mapsto> example_rule],
      show_icons = False, icon_height = 20\<rparr>"

definition example_state :: "XModel \<Rightarrow> XEvents" where
  "example_state xm = \<lparr>m_xmodel = xm, m_done = False, issued = []\<rparr>"

definition example_session :: "MoveResizeState \<Rightarrow> XModel" where
  "example_session st = XModel_init\<lparr>m_moveresize := Some (MoveResize 7 99 st)\<rparr>"

definition example_button :: "Window \<Rightarrow> XButtonEvent" where
  "example_button w =
     \<lparr>xbutton_window = w, xbutton_subwindow = X_None, xbutton_state = 64, xbutton_button = 1\<rparr>"

definition example_key :: XKeyEvent where
  "example_key =
     \<lparr>xkey_window = 5, xkey_subwindow = X_None, xkey_state = 0, xkey_keycode = 114\<rparr>"

definition example_hints :: XWMHints where
  "example_hints = \<lparr>flags = 2, initial_state = 3, icon_pixmap = 0\<rparr>"

definition example_registry :: Registry where
  "example_registry = [7 \<mapsto> \<lparr>geom_location = (0, 0), geom_size = (100, 100)\<rparr>]"

definition icon_a :: Icon where
  "icon_a = \<lparr>client = 1, icon = 10, gc = 0\<rparr>"

definition icon_b :: Icon where
  "icon_b = \<lparr>client = 1, icon = 11, gc = 1\<rparr>"

definition icon_c :: Icon where
  "icon_c = \<lparr>client = 2, icon = 12, gc = 2\<rparr>"

section \<open>Properties of the interaction model\<close>

text \<open>
  C1.  While a move/resize session is active, \<open>enter_move\<close> and \<open>enter_resize\<close>
  change nothing: the model is the same afterwards, and the three getters
  return the client, the placeholder and the state of the original session.
\<close>

theorem enter_while_active_is_noop:
  assumes "m_moveresize xm = Some mr"
  shows "enter_move c p xm = xm \<and> enter_resize c p xm = xm
    \<and> get_move_resize_client (enter_move c p xm) = mr_client mr
    \<and> get_move_resize_placeholder (enter_move c p xm) = mr_placeholder mr
    \<and> get_move_resize_state (enter_move c p xm) = mr_state mr
    \<and> get_move_resize_client (enter_resize c p xm) = mr_client mr
    \<and> get_move_resize_placeholder (enter_resize c p xm) = mr_placeholder mr
    \<and> get_move_resize_state (enter_resize c p xm) = mr_state mr"
  using assms
  by (simp add: enter_move_def enter_resize_def get_move_resize_client_def
      get_move_resize_placeholder_def get_move_resize_state_def)

theorem enter_while_active_is_noop_witness:
  "get_move_resize_client (enter_resize 8 100 (enter_move 7 99 XModel_init)) = 7
   \<and> get_move_resize_placeholder (enter_resize 8 100 (enter_move 7 99 XModel_init)) = 99
   \<and> get_move_resize_state (enter_resize 8 100 (enter_move 7 99 XModel_init)) = MR_MOVE"
proof -
  have active: "m_moveresize (enter_move 7 99 XModel_init) = Some (MoveResize 7 99 MR_MOVE)"
    by (simp add: enter_move_def XModel_init_def)
  show ?thesis
    using enter_while_active_is_noop [OF active, of 8 100]
    unfolding MoveResize.sel by blast
qed

lemma found_by_client_iff:
  "found_by_client xm i \<longleftrightarrow> m_clients_to_icons xm (client i) = Some (Some i)"
  by (simp add: found_by_client_def find_icon_from_client_def split: option.splits)

lemma found_by_icon_window_iff:
  "found_by_icon_window xm i \<longleftrightarrow> m_icon_windows_to_icons xm (icon i) = Some (Some i)"
  by (simp add: found_by_icon_window_def find_icon_from_icon_window_def split: option.splits)

lemma icons_indexed_init: "icons_indexed XModel_init []"
  by (simp add: icons_indexed_def XModel_init_def)

lemma icons_indexed_register:
  assumes "icons_indexed xm regs" and "call_allowed (Register i) regs"
  shows "icons_indexed (register_icon i xm) (i # regs)"
  using assms
  unfolding icons_indexed_def register_icon_def
  by (auto simp: list_all_iff inj_on_def)

lemma icons_indexed_unregister:
  assumes "icons_indexed xm regs" and "i \<in> set regs"
  shows "icons_indexed (unregister_icon i xm) (removeAll i regs)"
  using assms
  unfolding icons_indexed_def unregister_icon_def
  by (auto simp: inj_on_def)

lemma icons_indexed_find_client:
  assumes "icons_indexed xm regs"
  shows "icons_indexed (snd (find_icon_from_client c xm)) regs"
  using assms
  unfolding icons_indexed_def find_icon_from_client_def
  by (auto split: option.splits) (metis option.distinct(1))

lemma icons_indexed_find_icon_window:
  assumes "icons_indexed xm regs"
  shows "icons_indexed (snd (find_icon_from_icon_window w xm)) regs"
  using assms
  unfolding icons_indexed_def find_icon_from_icon_window_def
  by (auto split: option.splits) (metis option.distinct(1))

lemma icons_indexed_do_call:
  assumes "icons_indexed xm regs" and "call_allowed c regs"
  shows "icons_indexed (do_call c xm) (registered_after c regs)"
proof (cases c)
  case (Register i)
  with assms show ?thesis by (simp add: icons_indexed_register del: call_allowed.simps)
next
  case (Unregister i)
  with assms show ?thesis by (simp add: icons_indexed_unregister)
next
  case (FindFromClient w)
  with assms show ?thesis by (simp add: icons_indexed_find_client)
next
  case (FindFromIconWindow w)
  with assms show ?thesis by (simp add: icons_indexed_find_icon_window)
qed

lemma icons_indexed_do_calls:
  "icons_indexed xm regs \<Longrightarrow> one_icon_per_key cs regs \<Longrightarrow>
   \<exists>regs'. icons_indexed (do_calls cs xm) regs'"
proof (induction cs arbitrary: xm regs)
  case Nil
  then show ?case by auto
next
  case (Cons c cs)
  from Cons.prems have "icons_indexed (do_call c xm) (registered_after c regs)"
    by (simp add: icons_indexed_do_call)
  moreover from Cons.prems have "one_icon_per_key cs (registered_after c regs)"
    by simp
  ultimately show ?case using Cons.IH by simp
qed

lemma icons_indexed_both_or_neither:
  assumes "icons_indexed xm regs"
  shows "found_by_client xm i \<longleftrightarrow> found_by_icon_window xm i"
  using assms
  by (simp add: found_by_client_iff found_by_icon_window_iff icons_indexed_def)

lemma lookup_after_register:
  "fst (find_icon_from_client (client i) (register_icon i xm)) = Some i
   \<and> fst (find_icon_from_icon_window (icon i) (register_icon i xm)) = Some i"
  by (simp add: find_icon_from_client_def find_icon_from_icon_window_def register_icon_def)

lemma lookup_after_unregister:
  "fst (find_icon_from_client (client i) (unregister_icon i xm)) = None
   \<and> fst (find_icon_from_icon_window (icon i) (unregister_icon i xm)) = None"
  by (simp add: find_icon_from_client_def find_icon_from_icon_window_def unregister_icon_def)

text \<open>
  C2 (as amended).  After \<open>register_icon i\<close> both lookups return \<open>i\<close>, and
  after \<open>unregister_icon i\<close> both return the null pointer.  For every sequence
  of calls (lookups included) in which an icon is registered only while no
  registered icon has its client or its icon window, and unregistered only
  while it is registered, every icon is found by both keys or by neither.
\<close>

theorem icon_found_by_both_keys_or_neither:
  "fst (find_icon_from_client (client i) (register_icon i xm)) = Some i
   \<and> fst (find_icon_from_icon_window (icon i) (register_icon i xm)) = Some i
   \<and> fst (find_icon_from_client (client i) (unregister_icon i xm)) = None
   \<and> fst (find_icon_from_icon_window (icon i) (unregister_icon i xm)) = None
   \<and> (one_icon_per_key cs [] \<longrightarrow>
        (found_by_client (do_calls cs XModel_init) j
           \<longleftrightarrow> found_by_icon_window (do_calls cs XModel_init) j))"
proof -
  have "found_by_client (do_calls cs XModel_init) j
          \<longleftrightarrow> found_by_icon_window (do_calls cs XModel_init) j"
    if "one_icon_per_key cs []"
  proof -
    from icons_indexed_do_calls [OF icons_indexed_init that]
    obtain regs' where "icons_indexed (do_calls cs XModel_init) regs'" ..
    then show ?thesis by (rule icons_indexed_both_or_neither)
  qed
  with lookup_after_register [of i xm] lookup_after_unregister [of i xm]
  show ?thesis by blast
qed

theorem icon_found_by_both_keys_or_neither_witness:
  "one_icon_per_key [Register icon_a, FindFromClient 2, Register icon_c, Unregister icon_a] []
   \<and> (found_by_client
         (do_calls [Register icon_a, FindFromClient 2, Register icon_c, Unregister icon_a]
            XModel_init) icon_c
       \<longleftrightarrow> found_by_icon_window
         (do_calls [Register icon_a, FindFromClient 2, Register icon_c, Unregister icon_a]
            XModel_init) icon_c)
   \<and> found_by_client
         (do_calls [Register icon_a, FindFromClient 2, Register icon_c, Unregister icon_a]
            XModel_init) icon_c"
proof -
  have ok: "one_icon_per_key
       [Register icon_a, FindFromClient 2, Register icon_c, Unregister icon_a] []"
    by (simp add: icon_a_def icon_c_def)
  have found: "found_by_client
         (do_calls [Register icon_a, FindFromClient 2, Register icon_c, Unregister icon_a]
            XModel_init) icon_c"
    by (simp add: found_by_client_def find_icon_from_client_def
      find_icon_from_icon_window_def register_icon_def unregister_icon_def XModel_init_def icon_a_def icon_c_def)
  from icon_found_by_both_keys_or_neither
    [of icon_a XModel_init "[Register icon_a, FindFromClient 2, Register icon_c, Unregister icon_a]" icon_c]
  show ?thesis using ok found by blast
qed

text \<open>
  Without that discipline the claim fails: two icons registered for the same
  client leave the first one found by its icon window and not by its client.
\<close>

theorem icon_found_by_one_key_counterexample:
  "found_by_icon_window (do_calls [Register icon_a, Register icon_b] XModel_init) icon_a
   \<and> \<not> found_by_client (do_calls [Register icon_a, Register icon_b] XModel_init) icon_a"
  by (simp add: found_by_icon_window_def found_by_client_def find_icon_from_client_def
      find_icon_from_icon_window_def register_icon_def XModel_init_def icon_a_def icon_b_def)

section \<open>Properties of the dispatcher\<close>

text \<open>
  C3.  A button press on the window of a registered icon deiconifies the
  icon's client, whatever the button and the modifier state: it is the only
  operation invoked (no program is spawned, no move or resize is started, no
  focus is forced), and the interaction model is unchanged.
\<close>

theorem buttonpress_on_icon_deiconifies:
  assumes "fst (find_icon_from_icon_window (xbutton_window ev) (m_xmodel s)) = Some ic"
  shows "handle_buttonpress cfg mac q ev s = issue (clients_deiconify (client ic)) s
    \<and> issued (handle_buttonpress cfg mac q ev s) = issued s @ [clients_deiconify (client ic)]
    \<and> m_xmodel (handle_buttonpress cfg mac q ev s) = m_xmodel s"
proof -
  from assms have "snd (find_icon_from_icon_window (xbutton_window ev) (m_xmodel s)) = m_xmodel s"
    by (auto simp: find_icon_from_icon_window_def split: option.splits)
  with assms show ?thesis
    by (simp add: handle_buttonpress_def issue_def Let_def)
qed

theorem buttonpress_on_icon_deiconifies_witness:
  "fst (find_icon_from_icon_window (xbutton_window (example_button 10))
          (m_xmodel (example_state (register_icon icon_a XModel_init)))) = Some icon_a
   \<and> issued (handle_buttonpress example_config example_macros example_queries (example_button 10)
               (example_state (register_icon icon_a XModel_init)))
       = [clients_deiconify 1]"
proof -
  have found: "fst (find_icon_from_icon_window (xbutton_window (example_button 10))
          (m_xmodel (example_state (register_icon icon_a XModel_init)))) = Some icon_a"
    by (simp add: find_icon_from_icon_window_def example_button_def example_state_def
        register_icon_def icon_a_def)
  from buttonpress_on_icon_deiconifies [OF found, of example_config example_macros example_queries]
  have "issued (handle_buttonpress example_config example_macros example_queries (example_button 10)
               (example_state (register_icon icon_a XModel_init)))
       = issued (example_state (register_icon icon_a XModel_init)) @ [clients_deiconify (client icon_a)]"
    by blast
  then show ?thesis using found by (simp add: example_state_def icon_a_def)
qed

text \<open>
  C4.  A map-notify on a known client.  On the all-desktops desktop nothing is
  invoked and the state is unchanged.  On any other desktop the handler ends
  by invoking \<open>client_reset_desktop\<close>, the client model's operation that moves
  the client onto the current desktop, exactly once.
\<close>

theorem mapnotify_known_client_desktop:
  assumes "is_client q w"
  shows "(find_desktop q w = AllDesktops \<longrightarrow> handle_mapnotify cfg mac q w s = s)
    \<and> (find_desktop q w \<noteq> AllDesktops \<longrightarrow>
         (\<exists>pre. issued (handle_mapnotify cfg mac q w s)
                  = issued s @ pre @ [clients_client_reset_desktop w]
               \<and> clients_client_reset_desktop w \<notin> set pre))"
  using assms
  by (cases "find_desktop q w")
    (simp_all add: handle_mapnotify_def add_window_def issue_def is_all_desktop_def
      is_icon_desktop_def is_moving_desktop_def is_resizing_desktop_def Let_def)

theorem mapnotify_known_client_desktop_witness:
  "is_client (example_queries\<lparr>is_client := (\<lambda>w. True), find_desktop := (\<lambda>w. AllDesktops)\<rparr>) 5
   \<and> handle_mapnotify example_config example_macros
       (example_queries\<lparr>is_client := (\<lambda>w. True), find_desktop := (\<lambda>w. AllDesktops)\<rparr>)
       5 (example_state XModel_init)
     = example_state XModel_init
   \<and> is_client (example_queries\<lparr>is_client := (\<lambda>w. True), find_desktop := (\<lambda>w. IconDesktop)\<rparr>) 5
   \<and> last (issued (handle_mapnotify example_config example_macros
       (example_queries\<lparr>is_client := (\<lambda>w. True), find_desktop := (\<lambda>w. IconDesktop)\<rparr>)
       5 (example_state XModel_init)))
     = clients_client_reset_desktop 5"
proof -
  let ?qa = "example_queries\<lparr>is_client := (\<lambda>w. True), find_desktop := (\<lambda>w. AllDesktops)\<rparr>"
  let ?qi = "example_queries\<lparr>is_client := (\<lambda>w. True), find_desktop := (\<lambda>w. IconDesktop)\<rparr>"
  have known: "is_client ?qa 5" "is_client ?qi 5" by simp_all
  have sticky: "find_desktop ?qa 5 = AllDesktops" and other: "find_desktop ?qi 5 \<noteq> AllDesktops"
    by simp_all
  from mapnotify_known_client_desktop [OF known(1)] sticky
  have a: "handle_mapnotify example_config example_macros ?qa 5 (example_state XModel_init)
     = example_state XModel_init" by blast
  from mapnotify_known_client_desktop [OF known(2)] other
  obtain pre where "issued (handle_mapnotify example_config example_macros ?qi 5
      (example_state XModel_init))
     = issued (example_state XModel_init) @ pre @ [clients_client_reset_desktop 5]" by blast
  then have b: "last (issued (handle_mapnotify example_config example_macros ?qi 5
      (example_state XModel_init))) = clients_client_reset_desktop 5" by simp
  from a b known show ?thesis by blast
qed

lemma handle_buttonrelease_calls:
  "(get_move_resize_placeholder (m_xmodel s) \<noteq> xbutton_window ev \<longrightarrow>
      handle_buttonrelease q ev s = s)
   \<and> (m_moveresize (m_xmodel s) = None \<longrightarrow> handle_buttonrelease q ev s = s)
   \<and> (m_moveresize (m_xmodel s) = Some (MoveResize c p MR_MOVE) \<and> xbutton_window ev = p \<longrightarrow>
        handle_buttonrelease q ev s
          = issue (clients_stop_moving c
                     (attr_x (get_attributes q p), attr_y (get_attributes q p))) s)
   \<and> (m_moveresize (m_xmodel s) = Some (MoveResize c p MR_RESIZE) \<and> xbutton_window ev = p \<longrightarrow>
        handle_buttonrelease q ev s
          = issue (clients_stop_resizing c
                     (attr_width (get_attributes q p), attr_height (get_attributes q p))) s)
   \<and> m_xmodel (handle_buttonrelease q ev s) = m_xmodel s"
  by (auto simp: handle_buttonrelease_def get_move_resize_placeholder_def
      get_move_resize_state_def get_move_resize_client_def issue_def Let_def
      split: MoveResizeState.splits option.splits)

lemma buttonrelease_event_unchanged:
  assumes "handle_buttonrelease q ev s = s"
  shows "buttonrelease_event q ev s reg = (s, reg)"
  using assms by (simp add: buttonrelease_event_def)

lemma buttonrelease_event_issue:
  assumes "handle_buttonrelease q ev s = issue c s"
  shows "buttonrelease_event q ev s reg
    = ((issue c s)\<lparr>m_xmodel := fst (effect_of_stop c (m_xmodel s, reg))\<rparr>,
       snd (effect_of_stop c (m_xmodel s, reg)))"
  using assms by (simp add: buttonrelease_event_def issue_def Let_def)

text \<open>
  C5.  A button release on a window that is not the placeholder of the
  session, or with no session, leaves the dispatcher's state and the
  registry unchanged.  A release on the placeholder invokes \<open>stop_moving\<close>
  with the placeholder's position for a move session, \<open>stop_resizing\<close> with
  its size for a resize session, on the session's client; once the event is
  handled the session is closed and the client, when registered, has that
  position or that size, every other client being as before.
\<close>

theorem buttonrelease_commits_and_closes:
  "(get_move_resize_placeholder (m_xmodel s) \<noteq> xbutton_window ev \<longrightarrow>
      buttonrelease_event q ev s reg = (s, reg))
   \<and> (m_moveresize (m_xmodel s) = None \<longrightarrow> buttonrelease_event q ev s reg = (s, reg))
   \<and> (m_moveresize (m_xmodel s) = Some (MoveResize c p MR_MOVE) \<and> xbutton_window ev = p \<longrightarrow>
        issued (fst (buttonrelease_event q ev s reg))
          = issued s @ [clients_stop_moving c
                          (attr_x (get_attributes q p), attr_y (get_attributes q p))]
        \<and> m_moveresize (m_xmodel (fst (buttonrelease_event q ev s reg))) = None
        \<and> get_move_resize_state (m_xmodel (fst (buttonrelease_event q ev s reg))) = MR_INVALID
        \<and> snd (buttonrelease_event q ev s reg)
            = (case reg c of
                 None \<Rightarrow> reg
               | Some g \<Rightarrow>
                   reg(c \<mapsto> g\<lparr>geom_location :=
                                 (attr_x (get_attributes q p), attr_y (get_attributes q p))\<rparr>)))
   \<and> (m_moveresize (m_xmodel s) = Some (MoveResize c p MR_RESIZE) \<and> xbutton_window ev = p \<longrightarrow>
        issued (fst (buttonrelease_event q ev s reg))
          = issued s @ [clients_stop_resizing c
                          (attr_width (get_attributes q p), attr_height (get_attributes q p))]
        \<and> m_moveresize (m_xmodel (fst (buttonrelease_event q ev s reg))) = None
        \<and> get_move_resize_state (m_xmodel (fst (buttonrelease_event q ev s reg))) = MR_INVALID
        \<and> snd (buttonrelease_event q ev s reg)
            = (case reg c of
                 None \<Rightarrow> reg
               | Some g \<Rightarrow>
                   reg(c \<mapsto> g\<lparr>geom_size :=
                                 (attr_width (get_attributes q p),
                                  attr_height (get_attributes q p))\<rparr>)))"
proof (intro conjI impI)
  assume "get_move_resize_placeholder (m_xmodel s) \<noteq> xbutton_window ev"
  with handle_buttonrelease_calls [of s ev q c p]
  have "handle_buttonrelease q ev s = s" by blast
  then show "buttonrelease_event q ev s reg = (s, reg)"
    by (rule buttonrelease_event_unchanged)
next
  assume "m_moveresize (m_xmodel s) = None"
  with handle_buttonrelease_calls [of s ev q c p]
  have "handle_buttonrelease q ev s = s" by blast
  then show "buttonrelease_event q ev s reg = (s, reg)"
    by (rule buttonrelease_event_unchanged)
next
  assume move: "m_moveresize (m_xmodel s) = Some (MoveResize c p MR_MOVE) \<and> xbutton_window ev = p"
  let ?pos = "(attr_x (get_attributes q p), attr_y (get_attributes q p))"
  from move handle_buttonrelease_calls [of s ev q c p]
  have "handle_buttonrelease q ev s = issue (clients_stop_moving c ?pos) s" by blast
  from buttonrelease_event_issue [OF this, of reg]
  have ev: "buttonrelease_event q ev s reg
    = ((issue (clients_stop_moving c ?pos) s)\<lparr>m_xmodel := exit_move_resize (m_xmodel s)\<rparr>,
       case reg c of None \<Rightarrow> reg | Some g \<Rightarrow> reg(c \<mapsto> g\<lparr>geom_location := ?pos\<rparr>))"
    by (simp add: effect_of_stop_def)
  show "issued (fst (buttonrelease_event q ev s reg)) = issued s @ [clients_stop_moving c ?pos]"
    by (simp add: ev issue_def)
  show "m_moveresize (m_xmodel (fst (buttonrelease_event q ev s reg))) = None"
    by (simp add: ev exit_move_resize_def)
  show "get_move_resize_state (m_xmodel (fst (buttonrelease_event q ev s reg))) = MR_INVALID"
    by (simp add: ev exit_move_resize_def get_move_resize_state_def)
  show "snd (buttonrelease_event q ev s reg)
      = (case reg c of None \<Rightarrow> reg | Some g \<Rightarrow> reg(c \<mapsto> g\<lparr>geom_location := ?pos\<rparr>))"
    by (simp add: ev)
next
  assume resize:
    "m_moveresize (m_xmodel s) = Some (MoveResize c p MR_RESIZE) \<and> xbutton_window ev = p"
  let ?sz = "(attr_width (get_attributes q p), attr_height (get_attributes q p))"
  from resize handle_buttonrelease_calls [of s ev q c p]
  have "handle_buttonrelease q ev s = issue (clients_stop_resizing c ?sz) s" by blast
  from buttonrelease_event_issue [OF this, of reg]
  have ev: "buttonrelease_event q ev s reg
    = ((issue (clients_stop_resizing c ?sz) s)\<lparr>m_xmodel := exit_move_resize (m_xmodel s)\<rparr>,
       case reg c of None \<Rightarrow> reg | Some g \<Rightarrow> reg(c \<mapsto> g\<lparr>geom_size := ?sz\<rparr>))"
    by (simp add: effect_of_stop_def)
  show "issued (fst (buttonrelease_event q ev s reg)) = issued s @ [clients_stop_resizing c ?sz]"
    by (simp add: ev issue_def)
  show "m_moveresize (m_xmodel (fst (buttonrelease_event q ev s reg))) = None"
    by (simp add: ev exit_move_resize_def)
  show "get_move_resize_state (m_xmodel (fst (buttonrelease_event q ev s reg))) = MR_INVALID"
    by (simp add: ev exit_move_resize_def get_move_resize_state_def)
  show "snd (buttonrelease_event q ev s reg)
      = (case reg c of None \<Rightarrow> reg | Some g \<Rightarrow> reg(c \<mapsto> g\<lparr>geom_size := ?sz\<rparr>))"
    by (simp add: ev)
qed

theorem buttonrelease_commits_and_closes_witness:
  "buttonrelease_event example_queries (example_button 98)
       (example_state (example_session MR_MOVE)) example_registry
     = (example_state (example_session MR_MOVE), example_registry)
   \<and> issued (fst (buttonrelease_event example_queries (example_button 99)
                    (example_state (example_session MR_MOVE)) example_registry))
       = [clients_stop_moving 7 (100, 50)]
   \<and> get_move_resize_state
       (m_xmodel (fst (buttonrelease_event example_queries (example_button 99)
                         (example_state (example_session MR_MOVE)) example_registry)))
       = MR_INVALID
   \<and> snd (buttonrelease_event example_queries (example_button 99)
             (example_state (example_session MR_MOVE)) example_registry) 7
       = Some \<lparr>geom_location = (100, 50), geom_size = (100, 100)\<rparr>
   \<and> snd (buttonrelease_event example_queries (example_button 99)
             (example_state (example_session MR_RESIZE)) example_registry) 7
       = Some \<lparr>geom_location = (0, 0), geom_size = (640, 480)\<rparr>"
proof -
  have other: "get_move_resize_placeholder (m_xmodel (example_state (example_session MR_MOVE)))
      \<noteq> xbutton_window (example_button 98)"
    by (simp add: get_move_resize_placeholder_def example_state_def example_session_def
        example_button_def)
  have move: "m_moveresize (m_xmodel (example_state (example_session MR_MOVE)))
        = Some (MoveResize 7 99 MR_MOVE) \<and> xbutton_window (example_button 99) = 99"
    and resize: "m_moveresize (m_xmodel (example_state (example_session MR_RESIZE)))
        = Some (MoveResize 7 99 MR_RESIZE) \<and> xbutton_window (example_button 99) = 99"
    by (simp_all add: example_state_def example_session_def example_button_def)
  have attrs: "get_attributes example_queries 99 = example_attributes"
    by (simp add: example_queries_def)
  have nil: "issued (example_state (example_session MR_MOVE)) = []"
    by (simp add: example_state_def)
  have reg: "example_registry 7 = Some \<lparr>geom_location = (0, 0), geom_size = (100, 100)\<rparr>"
    by (simp add: example_registry_def)
  from buttonrelease_commits_and_closes
    [of "example_state (example_session MR_MOVE)" "example_button 98" example_queries
      example_registry 7 99] other
  have a: "buttonrelease_event example_queries (example_button 98)
       (example_state (example_session MR_MOVE)) example_registry
     = (example_state (example_session MR_MOVE), example_registry)"
    by blast
  from buttonrelease_commits_and_closes
    [of "example_state (example_session MR_MOVE)" "example_button 99" example_queries
      example_registry 7 99] move
  have b: "issued (fst (buttonrelease_event example_queries (example_button 99)
                    (example_state (example_session MR_MOVE)) example_registry))
       = issued (example_state (example_session MR_MOVE))
         @ [clients_stop_moving 7 (attr_x (get_attributes example_queries 99),
              attr_y (get_attributes example_queries 99))]"
    and c: "get_move_resize_state
       (m_xmodel (fst (buttonrelease_event example_queries (example_button 99)
                         (example_state (example_session MR_MOVE)) example_registry)))
       = MR_INVALID"
    and d: "snd (buttonrelease_event example_queries (example_button 99)
             (example_state (example_session MR_MOVE)) example_registry)
       = (case example_registry 7 of
            None \<Rightarrow> example_registry
          | Some g \<Rightarrow>
              example_registry(7 \<mapsto> g\<lparr>geom_location :=
                 (attr_x (get_attributes example_queries 99),
                  attr_y (get_attributes example_queries 99))\<rparr>))"
    by blast+
  from buttonrelease_commits_and_closes
    [of "example_state (example_session MR_RESIZE)" "example_button 99" example_queries
      example_registry 7 99] resize
  have e: "snd (buttonrelease_event example_queries (example_button 99)
             (example_state (example_session MR_RESIZE)) example_registry)
       = (case example_registry 7 of
            None \<Rightarrow> example_registry
          | Some g \<Rightarrow>
              example_registry(7 \<mapsto> g\<lparr>geom_size :=
                 (attr_width (get_attributes example_queries 99),
                  attr_height (get_attributes example_queries 99))\<rparr>))"
    by blast
  from b have b': "issued (fst (buttonrelease_event example_queries (example_button 99)
                    (example_state (example_session MR_MOVE)) example_registry))
       = [clients_stop_moving 7 (100, 50)]"
    by (simp add: nil attrs example_attributes_def)
  from d have d': "snd (buttonrelease_event example_queries (example_button 99)
             (example_state (example_session MR_MOVE)) example_registry) 7
       = Some \<lparr>geom_location = (100, 50), geom_size = (100, 100)\<rparr>"
    by (simp add: reg attrs example_attributes_def)
  from e have e': "snd (buttonrelease_event example_queries (example_button 99)
             (example_state (example_session MR_RESIZE)) example_registry) 7
       = Some \<lparr>geom_location = (0, 0), geom_size = (640, 480)\<rparr>"
    by (simp add: reg attrs example_attributes_def)
  from a b' c d' e' show ?thesis by blast
qed

text \<open>
  C6.  A pointer motion during a resize session whose placeholder has a
  positive width and height requests a positive width and height: a component
  of the pointer delta that would make the dimension non-positive (also when
  the 32-bit addition wraps) is replaced by 0.  The placeholder is a window:
  the handler returns at once when \<open>get_move_resize_placeholder\<close> is
  \<open>None\<close>.
\<close>

theorem motionnotify_resize_stays_positive:
  assumes "m_moveresize (m_xmodel s) = Some (MoveResize c p MR_RESIZE)"
    and "p \<noteq> X_None"
    and "0 < sint (attr_width (get_attributes q p))"
    and "0 < sint (attr_height (get_attributes q p))"
  shows "\<exists>w h. handle_motionnotify q s = issue (xdata_resize_window p w h) s
    \<and> 0 < sint w \<and> 0 < sint h
    \<and> w = (let dx = fst (update_pointer q (fst (get_pointer_location q)) (snd (get_pointer_location q)))
           in if sint (attr_width (get_attributes q p) + dx) \<le> 0
              then attr_width (get_attributes q p) else attr_width (get_attributes q p) + dx)
    \<and> h = (let dy = snd (update_pointer q (fst (get_pointer_location q)) (snd (get_pointer_location q)))
           in if sint (attr_height (get_attributes q p) + dy) \<le> 0
              then attr_height (get_attributes q p) else attr_height (get_attributes q p) + dy)"
  using assms
  by (auto simp: handle_motionnotify_def get_move_resize_placeholder_def
      get_move_resize_state_def DIM2D_X_def DIM2D_Y_def Let_def)

theorem motionnotify_resize_stays_positive_witness:
  "0 < sint (attr_width (get_attributes example_queries 99))
   \<and> 0 < sint (attr_height (get_attributes example_queries 99))
   \<and> handle_motionnotify example_queries (example_state (example_session MR_RESIZE))
     = issue (xdata_resize_window 99 640 487) (example_state (example_session MR_RESIZE))"
proof -
  have session: "m_moveresize (m_xmodel (example_state (example_session MR_RESIZE)))
      = Some (MoveResize 7 99 MR_RESIZE)"
    by (simp add: example_state_def example_session_def)
  have p: "(99::nat) \<noteq> X_None" by (simp add: X_None_def)
  have w: "0 < sint (attr_width (get_attributes example_queries 99))"
    and h: "0 < sint (attr_height (get_attributes example_queries 99))"
    by (simp_all add: example_queries_def example_attributes_def)
  have ptr: "update_pointer example_queries (fst (get_pointer_location example_queries))
      (snd (get_pointer_location example_queries)) = (- 1000, 7)"
    by (simp add: example_queries_def)
  have aw: "attr_width (get_attributes example_queries 99) = 640"
    and ah: "attr_height (get_attributes example_queries 99) = 480"
    by (simp_all add: example_queries_def example_attributes_def)
  from motionnotify_resize_stays_positive [OF session p w h]
  obtain w' h' where
    eq: "handle_motionnotify example_queries (example_state (example_session MR_RESIZE))
          = issue (xdata_resize_window 99 w' h') (example_state (example_session MR_RESIZE))"
    and w': "w' = (let dx = fst (update_pointer example_queries
                     (fst (get_pointer_location example_queries))
                     (snd (get_pointer_location example_queries)))
           in if sint (attr_width (get_attributes example_queries 99) + dx) \<le> 0
              then attr_width (get_attributes example_queries 99)
              else attr_width (get_attributes example_queries 99) + dx)"
    and h': "h' = (let dy = snd (update_pointer example_queries
                     (fst (get_pointer_location example_queries))
                     (snd (get_pointer_location example_queries)))
           in if sint (attr_height (get_attributes example_queries 99) + dy) \<le> 0
              then attr_height (get_attributes example_queries 99)
              else attr_height (get_attributes example_queries 99) + dy)"
    by blast
  have "w' = 640" unfolding w' ptr aw by simp
  moreover have "h' = 487" unfolding h' ptr ah by simp
  ultimately show ?thesis using eq w h by simp
qed

text \<open>
  C7.  A map-notify on a window that is not a client and whose attributes
  carry \<open>override_redirect\<close> changes nothing: no operation is invoked (no
  client is added, no class rule is applied) and the interaction model is the
  same.
\<close>

theorem mapnotify_override_redirect_ignored:
  assumes "\<not> is_client q w" and "override_redirect (get_attributes q w)"
  shows "handle_mapnotify cfg mac q w s = s"
  using assms by (simp add: handle_mapnotify_def add_window_def)

theorem mapnotify_override_redirect_ignored_witness:
  "\<not> is_client example_queries 5
   \<and> override_redirect
       (get_attributes
          (example_queries\<lparr>get_attributes := (\<lambda>w. example_attributes\<lparr>override_redirect := True\<rparr>)\<rparr>) 5)
   \<and> handle_mapnotify example_config example_macros
       (example_queries\<lparr>get_attributes := (\<lambda>w. example_attributes\<lparr>override_redirect := True\<rparr>)\<rparr>)
       5 (example_state XModel_init)
     = example_state XModel_init"
proof -
  let ?q = "example_queries\<lparr>get_attributes := (\<lambda>w. example_attributes\<lparr>override_redirect := True\<rparr>)\<rparr>"
  have unknown: "\<not> is_client ?q 5" and unknown': "\<not> is_client example_queries 5"
    by (simp_all add: example_queries_def)
  have override: "override_redirect (get_attributes ?q 5)"
    by simp
  from mapnotify_override_redirect_ignored [OF unknown override]
  show ?thesis using unknown' override by blast
qed

text \<open>
  C9.  A new manageable window whose hints ask for the iconic state is added
  as \<open>IS_HIDDEN\<close>, gets the dialog layer when it is transient, and nothing
  else: the result does not depend on the class rules of the configuration.
\<close>

theorem iconic_window_skips_class_actions:
  assumes "\<not> is_client q w" and "\<not> override_redirect (get_attributes q w)"
    and "get_wm_hints q w = Some h" and "flags h AND StateHint \<noteq> 0"
    and "initial_state h = IconicState"
  shows "add_window cfg mac q w s =
      (let s1 = issue (clients_add_client w IS_HIDDEN
                   (attr_x (get_attributes q w), attr_y (get_attributes q w))
                   (attr_width (get_attributes q w), attr_height (get_attributes q w))
                   (get_class q w \<notin> set (no_autofocus cfg))) s
       in if get_transient_hint q w \<noteq> X_None
          then issue (clients_set_layer w (DIALOG_LAYER mac)) s1 else s1)
    \<and> add_window cfg mac q w s = add_window (cfg\<lparr>classactions := rules\<rparr>) mac q w s"
  using assms
  by (simp add: add_window_def Let_def split: option.splits)

theorem iconic_window_skips_class_actions_witness:
  "\<not> is_client (example_queries\<lparr>get_wm_hints := (\<lambda>w. Some example_hints)\<rparr>) 5
   \<and> classactions example_config
       (get_class (example_queries\<lparr>get_wm_hints := (\<lambda>w. Some example_hints)\<rparr>) 5)
     = Some example_rule
   \<and> issued (add_window example_config example_macros
               (example_queries\<lparr>get_wm_hints := (\<lambda>w. Some example_hints)\<rparr>) 5
               (example_state XModel_init))
     = [clients_add_client 5 IS_HIDDEN (100, 50) (640, 480) True]"
proof -
  let ?q = "example_queries\<lparr>get_wm_hints := (\<lambda>w. Some example_hints)\<rparr>"
  have unknown: "\<not> is_client ?q 5" and managed: "\<not> override_redirect (get_attributes ?q 5)"
    by (simp_all add: example_queries_def example_attributes_def)
  have hints: "get_wm_hints ?q 5 = Some example_hints" by simp
  have state_hint: "flags example_hints AND StateHint \<noteq> 0"
    and iconic: "initial_state example_hints = IconicState"
    by (simp_all add: example_hints_def StateHint_def IconicState_def)
  have rule: "classactions example_config (get_class ?q 5) = Some example_rule"
    by (simp add: example_config_def example_queries_def)
  from iconic_window_skips_class_actions [OF unknown managed hints state_hint iconic,
      of example_config example_macros "example_state XModel_init" Map.empty]
  have "add_window example_config example_macros ?q 5 (example_state XModel_init)
    = (let s1 = issue (clients_add_client 5 IS_HIDDEN
                   (attr_x (get_attributes ?q 5), attr_y (get_attributes ?q 5))
                   (attr_width (get_attributes ?q 5), attr_height (get_attributes ?q 5))
                   (get_class ?q 5 \<notin> set (no_autofocus example_config)))
                 (example_state XModel_init)
       in if get_transient_hint ?q 5 \<noteq> X_None
          then issue (clients_set_layer 5 (DIALOG_LAYER example_macros)) s1 else s1)"
    by blast
  then have "issued (add_window example_config example_macros ?q 5 (example_state XModel_init))
     = [clients_add_client 5 IS_HIDDEN (100, 50) (640, 480) True]"
    by (simp add: example_queries_def example_attributes_def example_config_def issue_def
        example_state_def)
  with unknown rule show ?thesis by blast
qed

text \<open>
  The model of doubles at work: 10 times the double nearest to 0.7 is rounded
  to 7 before the fraction is dropped, where the exact product would give 6;
  a value above the range of \<open>int\<close> gives the least \<open>int\<close>, and the fraction
  of a negative value is dropped towards 0.
\<close>

lemma round_double_seven_tenths:
  "round_double (10 * (3152519739159347 / 4503599627370496)) = 7
   \<and> double_to_Dimension (round_double (10 * (3152519739159347 / 4503599627370496))) = 7
   \<and> double_to_Dimension (10 * (3152519739159347 / 4503599627370496)) = 6"
  by code_simp

lemma double_to_Dimension_out_of_range:
  "sint (double_to_Dimension 3000000000) = - 2147483648
   \<and> sint (double_to_Dimension (- 7 / 2)) = - 3"
  by code_simp

text \<open>
  C8.  The claim fails on the code by a slip in the last test of \<open>add_window\<close>,
  which compares \<open>win_attr.x\<close> (not \<open>win_attr.y\<close>) with the new y-coordinate.
  A visible window of class Term at (100, 50), whose rule moves it to half of
  the height of a screen of 800 x 200, should end at y = 100; the new
  y-coordinate equals the window's x-coordinate, so \<open>change_location\<close> is not
  invoked and the window stays at y = 50.  The same window at x = 101 is moved.
\<close>

theorem relative_move_skipped_when_new_y_equals_x:
  "classactions example_config (get_class example_queries 5) = Some example_rule
   \<and> ACT_MOVE_Y \<in> actions example_rule
   \<and> double_to_Dimension
         (round_double
            (Dimension_to_double (box_height (get_screen example_queries 5))
               * relative_y example_rule)) = 100
   \<and> issued (add_window example_config example_macros example_queries 5
               (example_state XModel_init))
       = [clients_add_client 5 IS_VISIBLE (100, 50) (640, 480) True,
          clients_change_mode 5 CPS_FLOATING]
   \<and> issued (add_window example_config example_macros
               (example_queries\<lparr>get_attributes := (\<lambda>w. example_attributes\<lparr>attr_x := 101\<rparr>)\<rparr>)
               5 (example_state XModel_init))
       = [clients_add_client 5 IS_VISIBLE (101, 50) (640, 480) True,
          clients_change_mode 5 CPS_FLOATING,
          clients_change_location 5 101 100]"
  by (simp add: add_window_def class_actions_def example_config_def example_queries_def
      example_state_def example_rule_def example_attributes_def issue_def
      double_to_Dimension_def Dimension_to_double_def round_double_def floor_log2_def
      bit_length.simps pow2_def round_half_even_def)

section \<open>Command lines executed by the dispatcher\<close>

lemma execl_sh_issue:
  "execl_sh cmd \<in> set (issued (issue c s)) \<longleftrightarrow> c = execl_sh cmd \<or> execl_sh cmd \<in> set (issued s)"
  by (auto simp: issue_def)

lemma client_action_no_execl:
  "execl_sh cmd \<in> set (issued (client_action mac a c s)) \<Longrightarrow> execl_sh cmd \<in> set (issued s)"
  by (cases a) (simp_all add: execl_sh_issue)

lemma keypress_switch_execl:
  assumes "execl_sh cmd \<in> set (issued
      (case a of
           RUN \<Rightarrow> fork_execl q ''exec /usr/bin/dmenu_run'' s
         | CYCLE_FOCUS \<Rightarrow>
             (if get_next q \<noteq> X_None then issue (clients_focus (get_next q)) s else s)
         | CYCLE_FOCUS_BACK \<Rightarrow>
             (if get_prev q \<noteq> X_None then issue (clients_focus (get_prev q)) s else s)
         | EXIT_WM \<Rightarrow> s\<lparr>m_done := True\<rparr>
         | NEXT_DESKTOP \<Rightarrow> issue clients_next_desktop s
         | PREV_DESKTOP \<Rightarrow> issue clients_prev_desktop s
         | _ \<Rightarrow> (if is_client q c then client_action mac a c s else s)))"
  shows "execl_sh cmd \<in> set (issued s) \<or> (a = RUN \<and> cmd = ''exec /usr/bin/dmenu_run'')"
  using assms
  by (cases a)
    (auto simp: execl_sh_issue fork_execl_def dest: client_action_no_execl split: if_splits)

lemma handle_keypress_execl:
  assumes "execl_sh cmd \<in> set (issued (handle_keypress cfg mac q k s))"
  shows "execl_sh cmd \<in> set (issued s)
    \<or> (binding_to_action cfg
          (get_keysym q (xkey_keycode k), xkey_state k AND SECONDARY_MASK mac \<noteq> 0) = RUN
        \<and> cmd = ''exec /usr/bin/dmenu_run'')"
  using assms unfolding handle_keypress_def Let_def
  by (rule keypress_switch_execl)

lemma handle_buttonpress_execl:
  assumes "execl_sh cmd \<in> set (issued (handle_buttonpress cfg mac q b s))"
  shows "execl_sh cmd \<in> set (issued s)
    \<or> (\<not> is_client q (xbutton_window b) \<and> \<not> is_client q (xbutton_subwindow b)
        \<and> fst (find_icon_from_icon_window (xbutton_window b) (m_xmodel s)) = None
        \<and> xbutton_button b = LAUNCH_BUTTON mac \<and> xbutton_state b = ACTION_MASK mac
        \<and> cmd = ''exec '' @ shell cfg)"
  using assms
  unfolding handle_buttonpress_def Let_def fork_execl_def
  by (auto simp: execl_sh_issue split: if_splits)

lemma handle_buttonrelease_execl:
  "execl_sh cmd \<in> set (issued (handle_buttonrelease q b s)) \<Longrightarrow> execl_sh cmd \<in> set (issued s)"
  unfolding handle_buttonrelease_def Let_def
  by (auto simp: execl_sh_issue split: if_splits MoveResizeState.splits)

lemma handle_motionnotify_execl:
  "execl_sh cmd \<in> set (issued (handle_motionnotify q s)) \<Longrightarrow> execl_sh cmd \<in> set (issued s)"
  unfolding handle_motionnotify_def Let_def
  by (auto simp: execl_sh_issue split: if_splits MoveResizeState.splits)

lemma handle_expose_execl:
  "execl_sh cmd \<in> set (issued (handle_expose cfg q w s)) \<Longrightarrow> execl_sh cmd \<in> set (issued s)"
  unfolding handle_expose_def Let_def
  by (auto simp: execl_sh_issue split: if_splits option.splits)

lemma class_actions_execl:
  "execl_sh cmd \<in> set (issued (class_actions q w a r s)) \<Longrightarrow> execl_sh cmd \<in> set (issued s)"
  unfolding class_actions_def Let_def
  by (auto simp: execl_sh_issue split: if_splits)

lemma add_window_execl:
  "execl_sh cmd \<in> set (issued (add_window cfg mac q w s)) \<Longrightarrow> execl_sh cmd \<in> set (issued s)"
  unfolding add_window_def Let_def
  by (auto simp: execl_sh_issue split: if_splits option.splits dest: class_actions_execl)

text \<open>
  C10.  A key press bound to \<open>RUN\<close> executes the fixed command line
  \<open>exec /usr/bin/dmenu_run\<close> (when \<open>fork\<close> succeeds) and nothing else, whatever
  the configured shell is.  Of all events, only a key press bound to \<open>RUN\<close>
  executes that command line, and only a button press on the launch path (no
  client, no icon, the launch button, the action modifier) executes \<open>exec\<close>
  followed by the configured shell, which that path does.
\<close>

theorem run_key_spawns_dmenu_run:
  "(binding_to_action cfg (get_keysym q (xkey_keycode k), xkey_state k AND SECONDARY_MASK mac \<noteq> 0)
        = RUN \<longrightarrow>
      handle_keypress cfg mac q k s
        = (if fork_ok q then issue (execl_sh ''exec /usr/bin/dmenu_run'') s else s))
   \<and> handle_keypress (cfg\<lparr>shell := sh\<rparr>) mac q k s = handle_keypress cfg mac q k s
   \<and> (execl_sh cmd \<in> set (issued (snd (step cfg mac q e s))) \<longrightarrow>
        execl_sh cmd \<in> set (issued s)
        \<or> (\<exists>k'. e = KeyPress k'
              \<and> binding_to_action cfg
                  (get_keysym q (xkey_keycode k'), xkey_state k' AND SECONDARY_MASK mac \<noteq> 0)
                = RUN)
          \<and> cmd = ''exec /usr/bin/dmenu_run''
        \<or> (\<exists>b'. e = ButtonPress b'
              \<and> \<not> is_client q (xbutton_window b') \<and> \<not> is_client q (xbutton_subwindow b')
              \<and> fst (find_icon_from_icon_window (xbutton_window b') (m_xmodel s)) = None
              \<and> xbutton_button b' = LAUNCH_BUTTON mac \<and> xbutton_state b' = ACTION_MASK mac)
          \<and> cmd = ''exec '' @ shell cfg)
   \<and> (\<not> is_client q (xbutton_window b) \<and> \<not> is_client q (xbutton_subwindow b)
        \<and> fst (find_icon_from_icon_window (xbutton_window b) (m_xmodel s)) = None
        \<and> xbutton_button b = LAUNCH_BUTTON mac \<and> xbutton_state b = ACTION_MASK mac \<longrightarrow>
        issued (handle_buttonpress cfg mac q b s)
          = issued s @ (if fork_ok q then [execl_sh (''exec '' @ shell cfg)] else []))"
proof (intro conjI impI)
  assume "binding_to_action cfg
            (get_keysym q (xkey_keycode k), xkey_state k AND SECONDARY_MASK mac \<noteq> 0) = RUN"
  then show "handle_keypress cfg mac q k s
        = (if fork_ok q then issue (execl_sh ''exec /usr/bin/dmenu_run'') s else s)"
    by (simp add: handle_keypress_def fork_execl_def)
next
  show "handle_keypress (cfg\<lparr>shell := sh\<rparr>) mac q k s = handle_keypress cfg mac q k s"
    by (simp add: handle_keypress_def)
next
  assume new: "execl_sh cmd \<in> set (issued (snd (step cfg mac q e s)))"
  show "execl_sh cmd \<in> set (issued s)
        \<or> (\<exists>k'. e = KeyPress k'
              \<and> binding_to_action cfg
                  (get_keysym q (xkey_keycode k'), xkey_state k' AND SECONDARY_MASK mac \<noteq> 0)
                = RUN)
          \<and> cmd = ''exec /usr/bin/dmenu_run''
        \<or> (\<exists>b'. e = ButtonPress b'
              \<and> \<not> is_client q (xbutton_window b') \<and> \<not> is_client q (xbutton_subwindow b')
              \<and> fst (find_icon_from_icon_window (xbutton_window b') (m_xmodel s)) = None
              \<and> xbutton_button b' = LAUNCH_BUTTON mac \<and> xbutton_state b' = ACTION_MASK mac)
          \<and> cmd = ''exec '' @ shell cfg"
  proof (cases e)
    case (KeyPress k')
    with new have "execl_sh cmd \<in> set (issued (handle_keypress cfg mac q k' s))"
      by (simp add: step_def Let_def)
    from handle_keypress_execl [OF this] KeyPress show ?thesis by blast
  next
    case (ButtonPress b')
    with new have "execl_sh cmd \<in> set (issued (handle_buttonpress cfg mac q b' s))"
      by (simp add: step_def Let_def)
    from handle_buttonpress_execl [OF this] ButtonPress show ?thesis by blast
  next
    case (ButtonRelease b')
    with new show ?thesis
      by (auto simp: step_def Let_def dest: handle_buttonrelease_execl)
  next
    case MotionNotify
    with new show ?thesis
      by (auto simp: step_def Let_def dest: handle_motionnotify_execl)
  next
    case (MapNotify w)
    with new show ?thesis
      by (auto simp: step_def Let_def handle_mapnotify_def dest: add_window_execl)
  next
    case (UnmapNotify w)
    with new show ?thesis
      by (simp add: step_def Let_def handle_unmapnotify_def execl_sh_issue)
  next
    case (Expose w)
    with new show ?thesis
      by (auto simp: step_def Let_def dest: handle_expose_execl)
  next
    case (DestroyNotify w)
    with new show ?thesis
      by (simp add: step_def Let_def handle_destroynotify_def execl_sh_issue)
  next
    case RRNotify
    with new show ?thesis
      by (simp add: step_def Let_def handle_rrnotify_def execl_sh_issue)
  next
    case OtherEvent
    with new show ?thesis
      by (simp add: step_def Let_def)
  qed
next
  assume "\<not> is_client q (xbutton_window b) \<and> \<not> is_client q (xbutton_subwindow b)
        \<and> fst (find_icon_from_icon_window (xbutton_window b) (m_xmodel s)) = None
        \<and> xbutton_button b = LAUNCH_BUTTON mac \<and> xbutton_state b = ACTION_MASK mac"
  then show "issued (handle_buttonpress cfg mac q b s)
          = issued s @ (if fork_ok q then [execl_sh (''exec '' @ shell cfg)] else [])"
    by (simp add: handle_buttonpress_def fork_execl_def issue_def)
qed

theorem run_key_spawns_dmenu_run_witness:
  "binding_to_action example_config
       (get_keysym example_queries (xkey_keycode example_key),
        xkey_state example_key AND SECONDARY_MASK example_macros \<noteq> 0) = RUN
   \<and> issued (handle_keypress example_config example_macros example_queries example_key
               (example_state XModel_init))
       = [execl_sh ''exec /usr/bin/dmenu_run'']
   \<and> issued (handle_buttonpress example_config example_macros example_queries
               (example_button 0) (example_state XModel_init))
       = [execl_sh ''exec xterm'']
   \<and> execl_sh ''exec xterm''
       \<notin> set (issued (snd (step example_config example_macros
                               (example_queries\<lparr>is_client := (\<lambda>w. True)\<rparr>)
                               (ButtonPress (example_button 0)) (example_state XModel_init))))"
proof -
  have run: "binding_to_action example_config
       (get_keysym example_queries (xkey_keycode example_key),
        xkey_state example_key AND SECONDARY_MASK example_macros \<noteq> 0) = RUN"
    by (simp add: example_config_def example_queries_def example_key_def example_macros_def)
  have launch: "\<not> is_client example_queries (xbutton_window (example_button 0))
      \<and> \<not> is_client example_queries (xbutton_subwindow (example_button 0))
      \<and> fst (find_icon_from_icon_window (xbutton_window (example_button 0))
               (m_xmodel (example_state XModel_init))) = None
      \<and> xbutton_button (example_button 0) = LAUNCH_BUTTON example_macros
      \<and> xbutton_state (example_button 0) = ACTION_MASK example_macros"
    by (simp add: example_queries_def example_button_def example_state_def XModel_init_def
        find_icon_from_icon_window_def example_macros_def)
  have ok: "fork_ok example_queries" and sh: "shell example_config = ''xterm''"
    and nil: "issued (example_state XModel_init) = []"
    by (simp_all add: example_queries_def example_config_def example_state_def)
  note inst = run_key_spawns_dmenu_run [of example_config example_queries example_key
      example_macros "example_state XModel_init" "''sh''" "''x''" OtherEvent "example_button 0"]
  from inst run have "handle_keypress example_config example_macros example_queries example_key
      (example_state XModel_init)
    = issue (execl_sh ''exec /usr/bin/dmenu_run'') (example_state XModel_init)"
    using ok by simp
  moreover from inst launch have "issued (handle_buttonpress example_config example_macros
      example_queries (example_button 0) (example_state XModel_init)) = [execl_sh ''exec xterm'']"
    using ok sh nil by simp
  moreover have "execl_sh ''exec xterm''
       \<notin> set (issued (snd (step example_config example_macros
                               (example_queries\<lparr>is_client := (\<lambda>w. True)\<rparr>)
                               (ButtonPress (example_button 0)) (example_state XModel_init))))"
    using run_key_spawns_dmenu_run [of example_config
        "example_queries\<lparr>is_client := (\<lambda>w. True)\<rparr>" example_key example_macros
        "example_state XModel_init" "''sh''" "''exec xterm''" "ButtonPress (example_button 0)"
        "example_button 0"] nil
    by auto
  ultimately show ?thesis using run nil by (simp add: issue_def)
qed

end
